theory Spec2Isabelle
  imports Main "HOL-Library.Multiset"
begin

section \<open>Python values shared by both components\<close>

text \<open>
  Python \<open>str\<close> values are modelled as \<open>string\<close> holding the UTF-8 bytes of the text.
  UTF-8 is injective and commutes with concatenation, so equality tests and f-string
  interpolation on the model agree with the program. The non-ASCII literals of
  \<open>context/service.py\<close> are written out byte by byte below, with their code points
  in the comment next to each. \<open>py_len\<close> is Python's \<open>len\<close> of a string, the number of
  its code points: every byte but the continuation bytes \<open>0x80\<close> to \<open>0xBF\<close> starts one.
\<close>

definition py_len :: "string \<Rightarrow> nat" where
  "py_len s = length (filter (\<lambda>c. \<not> (128 \<le> (of_char c :: nat) \<and> (of_char c :: nat) < 192)) s)"

text \<open>
  An exception of a class derived from Python's \<open>Exception\<close> is a value of \<open>exn\<close>; the
  payload is the text \<open>str(e)\<close> returns. \<open>IntegrityError\<close> and \<open>DBAPIError\<close> are the
  errors of the database driver as SQLAlchemy raises them, the first for a violated
  constraint, the second for any other refusal of a statement or of one of its values;
  \<open>Exception\<close> stands for any other class derived from \<open>Exception\<close>. \<open>base_exn\<close> is what a \<open>raise\<close> can carry at
  all: besides those, the classes that derive from \<open>BaseException\<close> only, which an
  \<open>except Exception\<close> clause does not catch.
\<close>

datatype exn =
    ValueError string
  | OverflowError string
  | IntegrityError string
  | DBAPIError string
  | Exception string

fun str_exn :: "exn \<Rightarrow> string" where
  "str_exn (ValueError m) = m"
| "str_exn (OverflowError m) = m"
| "str_exn (IntegrityError m) = m"
| "str_exn (DBAPIError m) = m"
| "str_exn (Exception m) = m"

datatype base_exn =
    Derived exn
  | CancelledError string
  | KeyboardInterrupt string
  | SystemExit string

text \<open>Python's \<open>str\<close> of an \<open>int\<close>, used by the f-strings of the log lines and messages.\<close>

function str_nat :: "nat \<Rightarrow> string" where
  "str_nat n =
     (if n < 10 then [''0123456789'' ! n]
      else str_nat (n div 10) @ [''0123456789'' ! (n mod 10)])"
  by pat_completeness auto
termination
  by (relation "measure id") auto

declare str_nat.simps [simp del]

definition str_int :: "int \<Rightarrow> string" where
  "str_int i = (if i < 0 then ''-'' @ str_nat (nat (- i)) else str_nat (nat i))"

text \<open>
  A logger is the list of the records written to it so far, oldest first; a record is
  the level of the call and the formatted message.
\<close>

datatype level = DEBUG | INFO | ERROR

type_synonym log = "(level \<times> string) list"

section \<open>Context engine: \<open>api/src/context\<close>\<close>

subsection \<open>Schemas (\<open>context/schemas.py\<close>) and the user model (\<open>users/models.py\<close>)\<close>

text \<open>
  Every record field carries a prefix naming its class (\<open>cal_title\<close> is
  \<open>CalendarEvent.title\<close>, \<open>snap_motion\<close> is \<open>ContextSnapshot.motion\<close>), since several
  classes of the program share field names; the three fields of the response keep their
  names. \<open>float\<close> fields and the values of the free-form \<open>user_info\<close> dictionary are
  never inspected by the engine; their types are left unspecified.
\<close>

typedecl pyfloat
typedecl pyany

record User =
  usr_id :: int
  usr_email :: "string option"
  usr_hashed_password :: "string option"
  usr_apple_id :: "string option"
  usr_is_active :: "bool option"

record LocationData =
  loc_latitude :: "pyfloat option"
  loc_longitude :: "pyfloat option"
  loc_altitude :: "pyfloat option"
  loc_accuracy :: "pyfloat option"
  loc_timestamp :: "string option"

record MotionData =
  mo_activity_type :: "string option"
  mo_confidence :: "pyfloat option"
  mo_steps :: "int option"
  mo_timestamp :: "string option"

record HealthData =
  he_heart_rate :: "pyfloat option"
  he_step_count :: "int option"
  he_active_energy :: "pyfloat option"
  he_timestamp :: "string option"

record CalendarEvent =
  cal_title :: string
  cal_start :: string
  cal_end :: string
  cal_location :: "string option"
  cal_is_all_day :: bool

record ContextSnapshot =
  snap_timestamp :: string
  snap_location :: "LocationData option"
  snap_motion :: "MotionData option"
  snap_health :: "HealthData option"
  snap_calendar_events :: "CalendarEvent list option"
  snap_user_info :: "(string \<times> pyany) list option"
  snap_recent_status :: "string list option"

record NotificationPayload =
  np_priority :: "string option"
  np_title :: string
  np_body :: string
  np_action_label :: "string option"

record ContextEngineRequest =
  req_trigger :: string
  req_snapshot :: ContextSnapshot

record ContextEngineResponse =
  decision :: string
  reasoning :: "string option"
  notification :: "NotificationPayload option"

subsection \<open>String literals of \<open>ContextService.process_context\<close>\<close>

definition lit_upcoming_activity :: string where
  \<comment> \<open>U+5373 U+5C06 U+5F00 U+59CB U+7684 U+6D3B U+52A8\<close>
  "lit_upcoming_activity =
     [CHR 0xE5, CHR 0x8D, CHR 0xB3, CHR 0xE5, CHR 0xB0, CHR 0x86, CHR 0xE5, CHR 0xBC,
      CHR 0x80, CHR 0xE5, CHR 0xA7, CHR 0x8B, CHR 0xE7, CHR 0x9A, CHR 0x84, CHR 0xE6,
      CHR 0xB4, CHR 0xBB, CHR 0xE5, CHR 0x8A, CHR 0xA8]"

definition lit_your_activity :: string where
  \<comment> \<open>U+60A8 U+7684 U+6D3B U+52A8, a space and an apostrophe\<close>
  "lit_your_activity =
     [CHR 0xE6, CHR 0x82, CHR 0xA8, CHR 0xE7, CHR 0x9A, CHR 0x84, CHR 0xE6, CHR 0xB4,
      CHR 0xBB, CHR 0xE5, CHR 0x8A, CHR 0xA8, CHR 0x20, CHR 0x27]"

definition lit_about_to_start :: string where
  \<comment> \<open>an apostrophe, a space, U+5373 U+5C06 U+5F00 U+59CB\<close>
  "lit_about_to_start =
     [CHR 0x27, CHR 0x20, CHR 0xE5, CHR 0x8D, CHR 0xB3, CHR 0xE5, CHR 0xB0, CHR 0x86,
      CHR 0xE5, CHR 0xBC, CHR 0x80, CHR 0xE5, CHR 0xA7, CHR 0x8B]"

definition lit_view_details :: string where
  \<comment> \<open>U+67E5 U+770B U+8BE6 U+60C5\<close>
  "lit_view_details =
     [CHR 0xE6, CHR 0x9F, CHR 0xA5, CHR 0xE7, CHR 0x9C, CHR 0x8B, CHR 0xE8, CHR 0xAF,
      CHR 0xA6, CHR 0xE6, CHR 0x83, CHR 0x85]"

definition lit_activity_reminder :: string where
  \<comment> \<open>U+6D3B U+52A8 U+63D0 U+9192\<close>
  "lit_activity_reminder =
     [CHR 0xE6, CHR 0xB4, CHR 0xBB, CHR 0xE5, CHR 0x8A, CHR 0xA8, CHR 0xE6, CHR 0x8F,
      CHR 0x90, CHR 0xE9, CHR 0x86, CHR 0x92]"

definition lit_starts_in_15_minutes :: string where
  \<comment> \<open>an apostrophe, a space, U+5C06 U+5728, the digits 15, U+5206 U+949F U+540E U+5F00 U+59CB\<close>
  "lit_starts_in_15_minutes =
     [CHR 0x27, CHR 0x20, CHR 0xE5, CHR 0xB0, CHR 0x86, CHR 0xE5, CHR 0x9C, CHR 0xA8,
      CHR 0x31, CHR 0x35, CHR 0xE5, CHR 0x88, CHR 0x86, CHR 0xE9, CHR 0x92, CHR 0x9F,
      CHR 0xE5, CHR 0x90, CHR 0x8E, CHR 0xE5, CHR 0xBC, CHR 0x80, CHR 0xE5, CHR 0xA7,
      CHR 0x8B]"

definition lit_ready_to_go :: string where
  \<comment> \<open>U+51C6 U+5907 U+51FA U+53D1\<close>
  "lit_ready_to_go =
     [CHR 0xE5, CHR 0x87, CHR 0x86, CHR 0xE5, CHR 0xA4, CHR 0x87, CHR 0xE5, CHR 0x87,
      CHR 0xBA, CHR 0xE5, CHR 0x8F, CHR 0x91]"

definition lit_health_reminder :: string where
  \<comment> \<open>U+5065 U+5EB7 U+63D0 U+9192\<close>
  "lit_health_reminder =
     [CHR 0xE5, CHR 0x81, CHR 0xA5, CHR 0xE5, CHR 0xBA, CHR 0xB7, CHR 0xE6, CHR 0x8F,
      CHR 0x90, CHR 0xE9, CHR 0x86, CHR 0x92]"

definition lit_take_a_rest :: string where
  \<comment> \<open>U+5EFA U+8BAE U+60A8 U+9002 U+5F53 U+4F11 U+606F U+FF0C U+6CE8 U+610F U+8EAB U+4F53
      U+72B6 U+51B5\<close>
  "lit_take_a_rest =
     [CHR 0xE5, CHR 0xBB, CHR 0xBA, CHR 0xE8, CHR 0xAE, CHR 0xAE, CHR 0xE6, CHR 0x82,
      CHR 0xA8, CHR 0xE9, CHR 0x80, CHR 0x82, CHR 0xE5, CHR 0xBD, CHR 0x93, CHR 0xE4,
      CHR 0xBC, CHR 0x91, CHR 0xE6, CHR 0x81, CHR 0xAF, CHR 0xEF, CHR 0xBC, CHR 0x8C,
      CHR 0xE6, CHR 0xB3, CHR 0xA8, CHR 0xE6, CHR 0x84, CHR 0x8F, CHR 0xE8, CHR 0xBA,
      CHR 0xAB, CHR 0xE4, CHR 0xBD, CHR 0x93, CHR 0xE7, CHR 0x8A, CHR 0xB6, CHR 0xE5,
      CHR 0x86, CHR 0xB5]"

definition lit_learn_more :: string where
  \<comment> \<open>U+4E86 U+89E3 U+66F4 U+591A\<close>
  "lit_learn_more =
     [CHR 0xE4, CHR 0xBA, CHR 0x86, CHR 0xE8, CHR 0xA7, CHR 0xA3, CHR 0xE6, CHR 0x9B,
      CHR 0xB4, CHR 0xE5, CHR 0xA4, CHR 0x9A]"

subsection \<open>\<open>ContextService.process_context\<close> (\<open>context/service.py\<close>)\<close>

definition response :: "string \<Rightarrow> string option \<Rightarrow> NotificationPayload option
    \<Rightarrow> ContextEngineResponse" where
  "response d r n = \<lparr>decision = d, reasoning = r, notification = n\<rparr>"

definition payload :: "string \<Rightarrow> string \<Rightarrow> string \<Rightarrow> string \<Rightarrow> NotificationPayload" where
  "payload p t b a = \<lparr>np_priority = Some p, np_title = t, np_body = b, np_action_label = Some a\<rparr>"

text \<open>
  The function first writes one record to the logger of the module, naming \<open>user.id\<close>
  and the trigger; the model takes the logger and returns it with the record added. It
  then assigns \<open>decision = "no_action"\<close>, \<open>reasoning = None\<close> and \<open>notification = None\<close>
  and overwrites them in the branch taken; the model returns the three values each path
  ends with.

  The \<open>if\<close> tests use Python truthiness: \<open>snapshot.calendar_events\<close> is true when it
  is neither \<open>None\<close> nor the empty list (only then is element \<open>[0]\<close> read);
  \<open>snapshot.motion\<close> and \<open>snapshot.health\<close> are pydantic model instances, true whenever
  they are not \<open>None\<close>; \<open>snapshot.motion.activity_type\<close> is a string, true when it is
  neither \<open>None\<close> nor empty.
\<close>

definition process_context ::
    "User \<Rightarrow> string \<Rightarrow> ContextSnapshot \<Rightarrow> log \<Rightarrow> ContextEngineResponse \<times> log" where
  "process_context user trigger snapshot logger =
     (let logger1 = logger @
            [(INFO, ''Processing context for user '' @ str_int (usr_id user)
                      @ '', trigger: '' @ trigger)]
      in
      (if trigger = ''location_change'' then
         (case snap_calendar_events snapshot of
            Some (next_event # rest) \<Rightarrow>
              response ''notify''
                (Some (''User arrived at location, upcoming event: '' @ cal_title next_event))
                (Some (payload ''normal'' lit_upcoming_activity
                         (lit_your_activity @ cal_title next_event @ lit_about_to_start)
                         lit_view_details))
          | _ \<Rightarrow> response ''no_action'' None None)
       else if trigger = ''time_based'' then
         (case snap_calendar_events snapshot of
            Some (next_event # rest) \<Rightarrow>
              response ''notify''
                (Some (''Time-based reminder for: '' @ cal_title next_event))
                (Some (payload ''high'' lit_activity_reminder
                         (lit_your_activity @ cal_title next_event @ lit_starts_in_15_minutes)
                         lit_ready_to_go))
          | _ \<Rightarrow> response ''no_action'' None None)
       else if trigger = ''activity_change'' then
         (case snap_motion snapshot of
            None \<Rightarrow> response ''no_action'' None None
          | Some m \<Rightarrow>
              (case mo_activity_type m of
                 None \<Rightarrow> response ''no_action'' None None
               | Some a \<Rightarrow>
                   if a \<noteq> []
                   then response ''monitor'' (Some (''Activity changed to: '' @ a)) None
                   else response ''no_action'' None None))
       else if trigger = ''health_alert'' then
         (case snap_health snapshot of
            Some h \<Rightarrow>
              response ''notify'' (Some ''Health data requires attention'')
                (Some (payload ''high'' lit_health_reminder lit_take_a_rest lit_learn_more))
          | None \<Rightarrow> response ''no_action'' None None)
       else response ''no_action'' (Some (''Unknown trigger type: '' @ trigger)) None,
       logger1))"

subsection \<open>The route \<open>context_engine\<close> (\<open>context/routes.py\<close>)\<close>

text \<open>
  The route writes a \<open>DEBUG\<close> record and runs \<open>await process_context(...)\<close> inside
  \<open>try\<close>/\<open>except Exception\<close>. The code of \<open>process_context\<close> raises nothing itself; what
  can end the awaited call with an exception comes from outside it (the interpreter
  running out of memory or stack, a signal, a cancellation). \<open>fault\<close> is that exception,
  \<open>None\<close> when the call returns; a fault is taken to end the call before its own log
  record is written.

  An exception of a class derived from \<open>Exception\<close> is caught: the handler logs it and
  returns the \<open>error\<close> response. Any other is not caught and leaves the route, which is
  the \<open>Inl\<close> result.
\<close>

definition context_engine ::
    "base_exn option \<Rightarrow> ContextEngineRequest \<Rightarrow> User \<Rightarrow> log
      \<Rightarrow> (base_exn + ContextEngineResponse) \<times> log" where
  "context_engine fault request current_user logger =
     (let logger1 = logger @
            [(DEBUG, ''Context engine request from user '' @ str_int (usr_id current_user)
                       @ '', trigger: '' @ req_trigger request)]
      in
      case fault of
        None \<Rightarrow>
          (let (resp, logger2) =
                 process_context current_user (req_trigger request) (req_snapshot request) logger1
           in (Inr resp, logger2 @ [(INFO, ''Context engine decision: '' @ decision resp)]))
      | Some (Derived e) \<Rightarrow>
          (Inr \<lparr>decision = ''error'', reasoning = Some (str_exn e), notification = None\<rparr>,
           logger1 @ [(ERROR, ''Context engine failed: '' @ str_exn e)])
      | Some b \<Rightarrow> (Inl b, logger1))"

section \<open>Event store: \<open>api/src/events\<close>\<close>

subsection \<open>Time\<close>

text \<open>
  A column of type \<open>DateTime(timezone=True)\<close> holds an instant: a \<open>datetime\<close> of the
  model is an instant counted in microseconds from 0001-01-01T00:00:00 UTC. A Python
  \<open>datetime\<close> object is a \<open>pydatetime\<close>: \<open>Naive w\<close> is the naive object with the
  wall-clock reading \<open>w\<close>, \<open>Aware w off\<close> the aware one with the reading \<open>w\<close> at the UTC
  offset \<open>off\<close>, both in microseconds, the reading counted from 0001-01-01T00:00:00,
  the least value of the class. Its greatest value, 9999-12-31T23:59:59.999999, is the
  reading \<open>datetime_max\<close> (day 3652059 is the first one past it).
  \<open>timedelta(days=d)\<close> raises \<open>OverflowError\<close> when the magnitude of \<open>d\<close> exceeds
  999999999, and adding a \<open>timedelta\<close> to a \<open>datetime\<close> raises \<open>OverflowError\<close> when the sum
  leaves the range of the class.
\<close>

type_synonym datetime = int

datatype pydatetime = Naive int | Aware int int



subsection \<open>The environment of one request\<close>

text \<open>
  What the code obtains from the standard library, the clock, the database driver and
  the database server is a parameter of the model:
  \<^item> \<open>fromisoformat\<close> is \<open>datetime.fromisoformat\<close> (\<open>None\<close>: the call raises
    \<open>ValueError\<close>);
  \<open>isoformat\<close> is \<open>datetime.isoformat\<close> on the object the driver loads for a stored
    instant;
  \<^item> \<open>bind_timestamptz\<close> is the driver's conversion of a \<open>datetime\<close> object that is bound
    to a \<open>DateTime(timezone=True)\<close> column or compared with one: the instant it sends,
    or the exception it raises. A naive object is read there as local time of the
    process, so the instant depends on the time zone the process runs in;
  \<^item> \<open>uuid4 k\<close> is the string \<open>str(uuid.uuid4())\<close> returns at its \<open>k\<close>-th call of the
    request (counted from 0), always 36 characters long;
  \<^item> \<open>utcnow\<close> is the wall-clock reading of the naive object \<open>datetime.utcnow()\<close>
    returns, and \<open>db_now\<close> the value of the server's \<open>now()\<close>;
  \<^item> the four \<open>_text\<close> fields give \<open>str(e)\<close> of the exceptions the library and the
    database raise (for the string that does not parse, the number of days that
    overflows, the key of the row a column refuses, the primary key that is taken).
\<close>

record env =
  fromisoformat :: "string \<Rightarrow> pydatetime option"
  isoformat :: "datetime \<Rightarrow> string"
  bind_timestamptz :: "pydatetime \<Rightarrow> exn + datetime"
  uuid4 :: "nat \<Rightarrow> string"
  utcnow :: int
  db_now :: datetime
  value_error_text :: "string \<Rightarrow> string"
  overflow_text :: "int \<Rightarrow> string"
  data_error_text :: "string \<Rightarrow> string"
  integrity_error_text :: "string \<Rightarrow> string"



fun replace_Z :: "string \<Rightarrow> string" where
  \<comment> \<open>\<open>s.replace("Z", "+00:00")\<close>\<close>
  "replace_Z [] = []"
| "replace_Z (c # cs) =
     (if c = CHR ''Z'' then ''+00:00'' @ replace_Z cs else c # replace_Z cs)"

definition parse_timestamp :: "env \<Rightarrow> string \<Rightarrow> exn + pydatetime" where
  \<comment> \<open>\<open>datetime.fromisoformat(s.replace("Z", "+00:00"))\<close>\<close>
  "parse_timestamp env s =
     (case fromisoformat env (replace_Z s) of
        None \<Rightarrow> Inl (ValueError (value_error_text env (replace_Z s)))
      | Some t \<Rightarrow> Inr t)"

subsection \<open>The model \<open>Event\<close> (\<open>events/models.py\<close>) and the schemas (\<open>events/schemas.py\<close>)\<close>

text \<open>
  An \<open>Event\<close> of the model is a row of the table \<open>events\<close>; its four timestamps are the
  instants stored.
\<close>

record Event =
  ev_id :: string
  ev_user_id :: int
  ev_source_event_id :: string
  ev_title :: string
  ev_start_at :: datetime
  ev_end_at :: datetime
  ev_state :: string
  ev_event_type :: "string option"
  ev_location :: "string option"
  ev_notes :: "string option"
  ev_is_all_day :: "bool option"
  ev_timezone :: "string option"
  ev_created_at :: datetime
  ev_updated_at :: datetime

record EventCreate =
  ec_source_event_id :: string
  ec_title :: string
  ec_start_at :: string
  ec_end_at :: string
  ec_state :: string
  ec_event_type :: "string option"
  ec_location :: "string option"
  ec_notes :: "string option"
  ec_is_all_day :: "bool option"
  ec_timezone :: "string option"


record EventSyncResponse =
  sync_success :: bool
  sync_message :: string
  synced_count :: int


record AutoSyncResponse =
  auto_success :: bool
  auto_message :: string

subsection \<open>The columns of the table\<close>

text \<open>
  The string columns are declared with a length: \<open>String(255)\<close> for \<open>source_event_id\<close>,
  \<open>String(500)\<close> for \<open>title\<close> and \<open>location\<close>, \<open>String(50)\<close> for \<open>state\<close>, \<open>String(100)\<close>
  for \<open>event_type\<close> and \<open>timezone\<close>; \<open>notes\<close> is \<open>Text\<close>. \<open>varchar n v\<close> is what a
  column of length \<open>n\<close> stores for the value \<open>v\<close>: the value itself when it has at most
  \<open>n\<close> characters; when it is longer, the INSERT is refused (\<open>None\<close>) unless all the
  characters in excess are spaces, which are then cut off. No text value may hold the
  character U+0000.
\<close>

function varchar :: "nat \<Rightarrow> string \<Rightarrow> string option" where
  "varchar n v =
     (if py_len v \<le> n then Some v
      else if v \<noteq> [] \<and> last v = CHR '' '' then varchar n (butlast v)
      else None)"
  by pat_completeness auto
termination
  by (relation "measure (\<lambda>(n, v). length v)") auto

declare varchar.simps [simp del]

definition column :: "nat \<Rightarrow> string \<Rightarrow> string option" where
  "column n v = (if CHR 0x00 \<in> set v then None else varchar n v)"

definition column_opt :: "nat \<Rightarrow> string option \<Rightarrow> string option option" where
  \<comment> \<open>a nullable column: \<open>None\<close> is stored as NULL\<close>
  "column_opt n v = (case v of None \<Rightarrow> Some None | Some x \<Rightarrow> map_option Some (column n x))"

definition text_column_opt :: "string option \<Rightarrow> string option option" where
  "text_column_opt v =
     (case v of
        None \<Rightarrow> Some None
      | Some x \<Rightarrow> if CHR 0x00 \<in> set x then None else Some (Some x))"

definition stored_row :: "Event \<Rightarrow> Event option" where
  \<comment> \<open>the row the INSERT stores for an object, \<open>None\<close> when a column refuses its value\<close>
  "stored_row event =
     Option.bind (column 255 (ev_source_event_id event)) (\<lambda>source_event_id.
     Option.bind (column 500 (ev_title event)) (\<lambda>title.
     Option.bind (column 50 (ev_state event)) (\<lambda>state.
     Option.bind (column_opt 100 (ev_event_type event)) (\<lambda>event_type.
     Option.bind (column_opt 500 (ev_location event)) (\<lambda>location.
     Option.bind (text_column_opt (ev_notes event)) (\<lambda>notes.
     Option.bind (column_opt 100 (ev_timezone event)) (\<lambda>timezone.
       Some (event\<lparr>ev_source_event_id := source_event_id, ev_title := title,
                   ev_state := state, ev_event_type := event_type, ev_location := location,
                   ev_notes := notes, ev_timezone := timezone\<rparr>))))))))"

subsection \<open>The session\<close>

text \<open>
  An \<open>AsyncSession\<close> works inside one transaction. \<open>pending\<close> is the table \<open>events\<close> as
  that transaction sees it, in the order of insertion: \<open>execute\<close> and \<open>flush\<close> change it.
  \<open>committed\<close> is the table as every other session, and every later request, reads it:
  only \<open>commit\<close> changes it. \<open>uuid_calls\<close> counts the calls of \<open>uuid.uuid4\<close> made so far.
  A request starts from \<open>open_session\<close> on the committed table. The foreign key to
  \<open>users\<close>, which holds for the authenticated user, is not modelled.
\<close>

record session =
  committed :: "Event list"
  pending :: "Event list"
  uuid_calls :: nat

definition open_session :: "Event list \<Rightarrow> session" where
  "open_session table = \<lparr>committed = table, pending = table, uuid_calls = 0\<rparr>"

definition commit :: "session \<Rightarrow> session" where
  "commit s = s\<lparr>committed := pending s\<rparr>"

definition execute_select :: "session \<Rightarrow> (Event \<Rightarrow> bool) \<Rightarrow> Event list \<times> session" where
  \<comment> \<open>\<open>session.execute(select(Event).where(p).order_by(Event.start_at))\<close>; rows with equal
      \<open>start_at\<close> come in an order the database chooses, here the order of insertion\<close>
  "execute_select s p = (sort_key ev_start_at (filter p (pending s)), s)"

definition execute_delete :: "session \<Rightarrow> (Event \<Rightarrow> bool) \<Rightarrow> int \<times> session" where
  \<comment> \<open>\<open>session.execute(delete(Event).where(p))\<close>, returning \<open>rowcount\<close>\<close>
  "execute_delete s p =
     (int (length (filter p (pending s))),
      s\<lparr>pending := filter (\<lambda>e. \<not> p e) (pending s)\<rparr>)"

subsection \<open>\<open>EventRepository\<close> (\<open>events/repository.py\<close>)\<close>

text \<open>
  \<open>Event(...)\<close> as \<open>create\<close> calls it, with the column defaults the insert applies:
  \<open>id\<close> is not passed and takes \<open>str(uuid.uuid4())\<close>; \<open>created_at\<close> and \<open>updated_at\<close> take
  the server's \<open>now()\<close>; \<open>is_all_day\<close> has the default \<open>False\<close>, which the ORM also
  applies when the attribute was set to \<open>None\<close>. \<open>state\<close> is always passed. The two
  timestamps of the object are given by the instants the driver sends for them.
\<close>

definition new_event :: "env \<Rightarrow> string \<Rightarrow> int \<Rightarrow> EventCreate \<Rightarrow> datetime \<Rightarrow> datetime \<Rightarrow> Event" where
  "new_event env new_id user_id event_data start_at end_at =
     \<lparr>ev_id = new_id,
      ev_user_id = user_id,
      ev_source_event_id = ec_source_event_id event_data,
      ev_title = ec_title event_data,
      ev_start_at = start_at,
      ev_end_at = end_at,
      ev_state = ec_state event_data,
      ev_event_type = ec_event_type event_data,
      ev_location = ec_location event_data,
      ev_notes = ec_notes event_data,
      ev_is_all_day = (case ec_is_all_day event_data of None \<Rightarrow> Some False | Some b \<Rightarrow> Some b),
      ev_timezone = ec_timezone event_data,
      ev_created_at = db_now env,
      ev_updated_at = db_now env\<rparr>"

text \<open>
  \<open>create\<close>: both timestamps are parsed while the arguments of \<open>Event(...)\<close> are
  evaluated, \<open>start_at\<close> first; a \<open>ValueError\<close> leaves the session as it was.
  \<open>session.flush()\<close> sends the INSERT: the primary key is generated, the driver converts
  the two timestamps, the columns check their values (\<open>DBAPIError\<close>), and a key that a
  row of the table already has is refused with \<open>IntegrityError\<close>. The row inserted is
  the stored one; the object returned keeps the values it was built from.
\<close>

definition create :: "env \<Rightarrow> session \<Rightarrow> int \<Rightarrow> EventCreate \<Rightarrow> (exn + Event) \<times> session" where
  "create env s user_id event_data =
     (case parse_timestamp env (ec_start_at event_data) of
        Inl e \<Rightarrow> (Inl e, s)
      | Inr start_at \<Rightarrow>
          (case parse_timestamp env (ec_end_at event_data) of
             Inl e \<Rightarrow> (Inl e, s)
           | Inr end_at \<Rightarrow>
               (let new_id = uuid4 env (uuid_calls s);
                    s1 = s\<lparr>uuid_calls := Suc (uuid_calls s)\<rparr>
                in case bind_timestamptz env start_at of
                     Inl e \<Rightarrow> (Inl e, s1)
                   | Inr start_instant \<Rightarrow>
                       (case bind_timestamptz env end_at of
                          Inl e \<Rightarrow> (Inl e, s1)
                        | Inr end_instant \<Rightarrow>
                            (let event = new_event env new_id user_id event_data
                                           start_instant end_instant
                             in case stored_row event of
                                  None \<Rightarrow> (Inl (DBAPIError (data_error_text env new_id)), s1)
                                | Some row \<Rightarrow>
                                    if new_id \<in> set (map ev_id (pending s1))
                                    then (Inl (IntegrityError (integrity_error_text env new_id)),
                                          s1)
                                    else (Inr event, s1\<lparr>pending := pending s1 @ [row]\<rparr>))))))"

definition get_user_events :: "session \<Rightarrow> int \<Rightarrow> Event list \<times> session" where
  "get_user_events s user_id = execute_select s (\<lambda>e. ev_user_id e = user_id)"


definition delete_user_events :: "session \<Rightarrow> int \<Rightarrow> int \<times> session" where
  "delete_user_events s user_id = execute_delete s (\<lambda>e. ev_user_id e = user_id)"

definition delete_past_events :: "env \<Rightarrow> session \<Rightarrow> int \<Rightarrow> (exn + int) \<times> session" where
  "delete_past_events env s user_id =
     (let now = utcnow env in
      case bind_timestamptz env (Naive now) of
        Inl e \<Rightarrow> (Inl e, s)
      | Inr now_instant \<Rightarrow>
          (let (rowcount, s1) =
                 execute_delete s (\<lambda>e. ev_user_id e = user_id \<and> ev_end_at e < now_instant)
           in (Inr rowcount, s1)))"

subsection \<open>\<open>EventService\<close> (\<open>events/service.py\<close>)\<close>

text \<open>
  The loop \<open>for event_data in events: await self.repository.create(user_id, event_data)\<close>:
  the first exception ends it, with the session as \<open>create\<close> left it. The \<open>logger\<close>
  calls of the service and of the routes write log lines only; they touch neither the
  session nor a returned value and are left out of this part of the model.
\<close>

fun create_all :: "env \<Rightarrow> session \<Rightarrow> int \<Rightarrow> EventCreate list \<Rightarrow> (exn + unit) \<times> session" where
  "create_all env s user_id [] = (Inr (), s)"
| "create_all env s user_id (event_data # events) =
     (case create env s user_id event_data of
        (Inl e, s1) \<Rightarrow> (Inl e, s1)
      | (Inr event, s1) \<Rightarrow> create_all env s1 user_id events)"

definition sync_events :: "env \<Rightarrow> session \<Rightarrow> int \<Rightarrow> EventCreate list \<Rightarrow> (exn + int) \<times> session" where
  "sync_events env s user_id events =
     (let (deleted_count, s1) = delete_user_events s user_id in
      case create_all env s1 user_id events of
        (Inl e, s2) \<Rightarrow> (Inl e, s2)
      | (Inr u, s2) \<Rightarrow> (Inr (int (length events)), commit s2))"



definition auto_sync :: "env \<Rightarrow> session \<Rightarrow> int \<Rightarrow> (exn + bool) \<times> session" where
  "auto_sync env s user_id =
     (case delete_past_events env s user_id of
        (Inl e, s1) \<Rightarrow> (Inl e, s1)
      | (Inr deleted_count, s1) \<Rightarrow> (Inr True, commit s1))"

subsection \<open>The routes (\<open>events/routes.py\<close>)\<close>

text \<open>
  Each route runs its service call inside \<open>try\<close>/\<open>except Exception\<close> on the session of
  the request; every exception the model of the service raises is of a class derived
  from \<open>Exception\<close>, so the clause catches it. \<open>days\<close> is the query parameter of \<open>GET /events/upcoming\<close>: \<open>None\<close> when the
  request does not give it, and then the default 5 of the signature is used.
\<close>

definition route_sync_events :: "env \<Rightarrow> session \<Rightarrow> User \<Rightarrow> EventCreate list
    \<Rightarrow> EventSyncResponse \<times> session" where
  "route_sync_events env s current_user events =
     (case sync_events env s (usr_id current_user) events of
        (Inr synced, s1) \<Rightarrow>
          (\<lparr>sync_success = True,
            sync_message = ''Successfully synced '' @ str_int synced @ '' events'',
            synced_count = synced\<rparr>, s1)
      | (Inl e, s1) \<Rightarrow>
          (\<lparr>sync_success = False, sync_message = str_exn e, synced_count = 0\<rparr>, s1))"


definition trigger_auto_sync :: "env \<Rightarrow> session \<Rightarrow> User \<Rightarrow> AutoSyncResponse \<times> session" where
  "trigger_auto_sync env s current_user =
     (case auto_sync env s (usr_id current_user) of
        (Inr success, s1) \<Rightarrow>
          (\<lparr>auto_success = success, auto_message = ''Auto sync completed successfully''\<rparr>, s1)
      | (Inl e, s1) \<Rightarrow> (\<lparr>auto_success = False, auto_message = str_exn e\<rparr>, s1))"

section \<open>Notions used to state the properties\<close>

text \<open>
  The definitions of this section are not part of the program. They name what the
  properties below speak about.

  \<open>owned_by\<close> gives the rows of one user. A stored event and a submitted one are
  compared by the tuple (source_event_id, title, start_at, end_at), the two timestamps
  of a submitted event being the instants its strings denote: \<open>denotes\<close> reads a string
  with \<open>fromisoformat\<close>, a final \<open>Z\<close> standing for the offset \<open>+00:00\<close>, and takes the
  instant the driver sends for the object. \<open>iso_timestamp\<close> holds of a string that
  denotes an instant and has no \<open>Z\<close> but possibly its last character; \<open>fits_columns\<close>
  holds of an input whose strings are within the lengths of their columns and free of
  U+0000. \<open>well_formed\<close> holds of an input whose two timestamps \<open>create\<close> can parse.
\<close>

definition owned_by :: "int \<Rightarrow> Event list \<Rightarrow> Event list" where
  "owned_by user_id rows = filter (\<lambda>e. ev_user_id e = user_id) rows"

definition z_as_utc :: "string \<Rightarrow> string" where
  "z_as_utc s = (if s \<noteq> [] \<and> last s = CHR ''Z'' then butlast s @ ''+00:00'' else s)"

definition denotes :: "env \<Rightarrow> string \<Rightarrow> datetime option" where
  "denotes env s =
     (case fromisoformat env (z_as_utc s) of
        None \<Rightarrow> None
      | Some t \<Rightarrow> (case bind_timestamptz env t of Inl e \<Rightarrow> None | Inr i \<Rightarrow> Some i))"

definition iso_timestamp :: "env \<Rightarrow> string \<Rightarrow> bool" where
  "iso_timestamp env s \<longleftrightarrow> CHR ''Z'' \<notin> set (butlast s) \<and> denotes env s \<noteq> None"

definition fits :: "nat \<Rightarrow> string \<Rightarrow> bool" where
  "fits n v \<longleftrightarrow> py_len v \<le> n \<and> CHR 0x00 \<notin> set v"

definition fits_opt :: "nat \<Rightarrow> string option \<Rightarrow> bool" where
  "fits_opt n v \<longleftrightarrow> (case v of None \<Rightarrow> True | Some x \<Rightarrow> fits n x)"

definition fits_columns :: "EventCreate \<Rightarrow> bool" where
  "fits_columns d \<longleftrightarrow>
     fits 255 (ec_source_event_id d) \<and> fits 500 (ec_title d) \<and> fits 50 (ec_state d)
     \<and> fits_opt 100 (ec_event_type d) \<and> fits_opt 500 (ec_location d)
     \<and> fits_opt 100 (ec_timezone d)
     \<and> (case ec_notes d of None \<Rightarrow> True | Some x \<Rightarrow> CHR 0x00 \<notin> set x)"

definition accepted :: "env \<Rightarrow> EventCreate \<Rightarrow> bool" where
  \<comment> \<open>an input the store accepts: ISO-8601 timestamps, strings within their columns\<close>
  "accepted env d \<longleftrightarrow>
     iso_timestamp env (ec_start_at d) \<and> iso_timestamp env (ec_end_at d) \<and> fits_columns d"

definition stored_tuple :: "Event \<Rightarrow> string \<times> string \<times> datetime option \<times> datetime option" where
  "stored_tuple e = (ev_source_event_id e, ev_title e, Some (ev_start_at e), Some (ev_end_at e))"

definition submitted_tuple ::
    "env \<Rightarrow> EventCreate \<Rightarrow> string \<times> string \<times> datetime option \<times> datetime option" where
  "submitted_tuple env d =
     (ec_source_event_id d, ec_title d, denotes env (ec_start_at d), denotes env (ec_end_at d))"

definition well_formed :: "env \<Rightarrow> EventCreate \<Rightarrow> bool" where
  "well_formed env d \<longleftrightarrow>
     fromisoformat env (replace_Z (ec_start_at d)) \<noteq> None
     \<and> fromisoformat env (replace_Z (ec_end_at d)) \<noteq> None"




text \<open>\<open>built\<close>: the rows a run of the loop of \<open>sync_events\<close> inserts for a batch.\<close>

fun built :: "env \<Rightarrow> int \<Rightarrow> nat \<Rightarrow> EventCreate list \<Rightarrow> Event list" where
  "built env u k [] = []"
| "built env u k (d # ds) =
     new_event env (uuid4 env k) u d
       (the (denotes env (ec_start_at d))) (the (denotes env (ec_end_at d)))
     # built env u (Suc k) ds"



section \<open>Sample values\<close>

text \<open>
  Concrete inputs for the closed instances of the theorems. The sample environment
  knows seven instants of January 2026 (\<open>63903718800000000\<close> is 2026-01-11T09:00:00 UTC,
  its clock reading), numbers the keys it generates, and has a driver running in UTC;
  \<open>new_york_env\<close> differs from it by a driver running five hours behind UTC.
\<close>

definition sample_user :: User where
  "sample_user = \<lparr>usr_id = 1, usr_email = Some ''a@example.com'', usr_hashed_password = None,
     usr_apple_id = None, usr_is_active = Some True\<rparr>"

definition other_user :: User where
  "other_user = \<lparr>usr_id = 2, usr_email = None, usr_hashed_password = None,
     usr_apple_id = Some ''apple-2'', usr_is_active = Some True\<rparr>"

definition empty_snapshot :: ContextSnapshot where
  "empty_snapshot = \<lparr>snap_timestamp = ''2026-01-11T09:00:00Z'', snap_location = None,
     snap_motion = None, snap_health = None, snap_calendar_events = None,
     snap_user_info = None, snap_recent_status = None\<rparr>"

definition team_sync :: CalendarEvent where
  "team_sync = \<lparr>cal_title = ''Team Sync'', cal_start = ''2026-01-11T10:00:00Z'',
     cal_end = ''2026-01-11T11:00:00Z'', cal_location = None, cal_is_all_day = False\<rparr>"

definition lunch :: CalendarEvent where
  "lunch = \<lparr>cal_title = ''Lunch'', cal_start = ''2026-01-11T12:00:00Z'',
     cal_end = ''2026-01-11T13:00:00Z'', cal_location = Some ''Cafe'', cal_is_all_day = False\<rparr>"

definition motion_of :: "string option \<Rightarrow> MotionData" where
  "motion_of a = \<lparr>mo_activity_type = a, mo_confidence = None, mo_steps = None,
     mo_timestamp = None\<rparr>"

definition sample_health :: HealthData where
  "sample_health = \<lparr>he_heart_rate = None, he_step_count = Some 4200, he_active_energy = None,
     he_timestamp = None\<rparr>"


definition sample_fromisoformat :: "string \<Rightarrow> pydatetime option" where
  "sample_fromisoformat s =
     (if s = ''2026-01-10T08:00:00+00:00'' then Some (Aware 63903628800000000 0)
      else if s = ''2026-01-10T09:00:00+00:00'' then Some (Aware 63903632400000000 0)
      else if s = ''2026-01-11T09:00:00+00:00'' then Some (Aware 63903718800000000 0)
      else if s = ''2026-01-11T10:00:00+00:00'' then Some (Aware 63903722400000000 0)
      else if s = ''2026-01-11T11:00:00+00:00'' then Some (Aware 63903726000000000 0)
      else if s = ''2026-01-12T10:00:00+00:00'' then Some (Aware 63903808800000000 0)
      else if s = ''2026-01-12T11:00:00+00:00'' then Some (Aware 63903812400000000 0)
      else None)"

definition sample_isoformat :: "datetime \<Rightarrow> string" where
  "sample_isoformat t =
     (if t = 63903628800000000 then ''2026-01-10T08:00:00+00:00''
      else if t = 63903632400000000 then ''2026-01-10T09:00:00+00:00''
      else if t = 63903718800000000 then ''2026-01-11T09:00:00+00:00''
      else if t = 63903722400000000 then ''2026-01-11T10:00:00+00:00''
      else if t = 63903726000000000 then ''2026-01-11T11:00:00+00:00''
      else if t = 63903808800000000 then ''2026-01-12T10:00:00+00:00''
      else if t = 63903812400000000 then ''2026-01-12T11:00:00+00:00''
      else [])"

definition utc_bind :: "pydatetime \<Rightarrow> exn + datetime" where
  \<comment> \<open>a driver in a process whose local time is UTC\<close>
  "utc_bind t = (case t of Naive w \<Rightarrow> Inr w | Aware w off \<Rightarrow> Inr (w - off))"

definition new_york_bind :: "pydatetime \<Rightarrow> exn + datetime" where
  \<comment> \<open>a driver in a process whose local time is five hours behind UTC\<close>
  "new_york_bind t = (case t of Naive w \<Rightarrow> Inr (w + 18000000000) | Aware w off \<Rightarrow> Inr (w - off))"

definition sample_env :: env where
  "sample_env =
     \<lparr>fromisoformat = sample_fromisoformat,
      isoformat = sample_isoformat,
      bind_timestamptz = utc_bind,
      uuid4 = (\<lambda>k. ''uuid-'' @ str_nat k),
      utcnow = 63903718800000000,
      db_now = 63903718800000000,
      value_error_text = (\<lambda>s. ''Invalid isoformat string: '' @ s),
      overflow_text = (\<lambda>d. ''date value out of range''),
      data_error_text = (\<lambda>k. ''value too long'' ),
      integrity_error_text = (\<lambda>k. ''duplicate key '' @ k)\<rparr>"

definition new_york_env :: env where
  "new_york_env = sample_env\<lparr>bind_timestamptz := new_york_bind\<rparr>"

definition event_of :: "string \<Rightarrow> int \<Rightarrow> string \<Rightarrow> datetime \<Rightarrow> datetime \<Rightarrow> Event" where
  "event_of i u t start_at end_at =
     \<lparr>ev_id = i, ev_user_id = u, ev_source_event_id = ''src-'' @ i, ev_title = t,
      ev_start_at = start_at, ev_end_at = end_at, ev_state = ''pending'',
      ev_event_type = None, ev_location = Some ''Room 1'', ev_notes = None,
      ev_is_all_day = Some False, ev_timezone = Some ''UTC'',
      ev_created_at = 63903628800000000, ev_updated_at = 63903628800000000\<rparr>"

definition input_of :: "string \<Rightarrow> string \<Rightarrow> string \<Rightarrow> string \<Rightarrow> EventCreate" where
  "input_of i t start_at end_at =
     \<lparr>ec_source_event_id = i, ec_title = t, ec_start_at = start_at, ec_end_at = end_at,
      ec_state = ''pending'', ec_event_type = None, ec_location = None, ec_notes = None,
      ec_is_all_day = None, ec_timezone = None\<rparr>"

definition dentist :: Event where
  "dentist = event_of ''old-1'' 1 ''Dentist'' 63903628800000000 63903632400000000"

definition flight :: Event where
  "flight = event_of ''old-2'' 2 ''Flight'' 63903808800000000 63903812400000000"

definition standup :: Event where
  "standup = event_of ''old-3'' 1 ''Standup'' 63903718800000000 63903718800000000"

definition review :: Event where
  "review = event_of ''old-4'' 1 ''Review'' 63904150800000000 63904154400000000"

definition offsite :: Event where
  "offsite = event_of ''old-5'' 1 ''Offsite'' 63904150800000001 63904154400000000"

definition briefing :: Event where
  "briefing = event_of ''old-6'' 1 ''Briefing'' 63903718800000000 63903722400000000"

definition team_sync_input :: EventCreate where
  "team_sync_input = input_of ''src-a'' ''Team Sync'' ''2026-01-11T10:00:00Z'' ''2026-01-11T11:00:00Z''"

definition lunch_input :: EventCreate where
  "lunch_input = input_of ''src-b'' ''Lunch'' ''2026-01-12T10:00:00+00:00'' ''2026-01-12T11:00:00+00:00''"

definition malformed_input :: EventCreate where
  "malformed_input = input_of ''src-c'' ''Gym'' ''tomorrow'' ''2026-01-12T11:00:00+00:00''"

definition long_state_input :: EventCreate where
  "long_state_input = lunch_input\<lparr>ec_state := replicate 51 (CHR ''x'')\<rparr>"

lemmas samples = sample_env_def sample_fromisoformat_def sample_isoformat_def utc_bind_def
  event_of_def input_of_def dentist_def flight_def standup_def review_def offsite_def
  briefing_def team_sync_input_def lunch_input_def malformed_input_def

section \<open>Lemmas\<close>

lemma str_nat_digits:
  "str_nat 0 = ''0''" "str_nat (Suc 0) = ''1''" "str_nat 2 = ''2''" "str_nat 5 = ''5''"
  by (simp_all add: str_nat.simps)

lemma str_int_digits: "str_int 1 = ''1''" "str_int 2 = ''2''"
  by (simp_all add: str_int_def str_nat.simps)

lemma upt_0_2: "[0..<2] = [0, 1]"
  by (simp add: upt_rec)

lemma replace_Z_id: "CHR ''Z'' \<notin> set s \<Longrightarrow> replace_Z s = s"
  by (induction s) auto

lemma replace_Z_append: "replace_Z (a @ b) = replace_Z a @ replace_Z b"
  by (induction a) auto

lemma replace_Z_trailing:
  assumes "CHR ''Z'' \<notin> set (butlast s)"
  shows "replace_Z s = z_as_utc s"
proof (cases "s = []")
  case True
  then show ?thesis by (simp add: z_as_utc_def)
next
  case False
  then have s: "s = butlast s @ [last s]" by simp
  have "replace_Z s = replace_Z (butlast s) @ replace_Z [last s]"
    by (subst s) (simp only: replace_Z_append)
  also have "\<dots> = butlast s @ replace_Z [last s]"
    using assms by (simp add: replace_Z_id)
  also have "\<dots> = z_as_utc s"
    using False s by (auto simp: z_as_utc_def)
  finally show ?thesis .
qed

lemma py_len_replicate_ascii: "py_len (replicate n (CHR ''x'')) = n"
  by (simp add: py_len_def)

lemma varchar_fits: "py_len v \<le> n \<Longrightarrow> varchar n v = Some v"
  by (simp add: varchar.simps)

lemma column_fits: "fits n v \<Longrightarrow> column n v = Some v"
  by (simp add: fits_def column_def varchar_fits)

lemma column_opt_fits: "fits_opt n v \<Longrightarrow> column_opt n v = Some v"
  by (cases v) (simp_all add: fits_opt_def column_opt_def column_fits)

lemma stored_row_fits:
  assumes "fits_columns d"
  shows "stored_row (new_event env i u d a b) = Some (new_event env i u d a b)"
proof -
  have n: "text_column_opt (ec_notes d) = Some (ec_notes d)"
    using assms by (cases "ec_notes d") (simp_all add: fits_columns_def text_column_opt_def)
  show ?thesis
    using assms n
    by (simp add: stored_row_def fits_columns_def column_fits column_opt_fits new_event_def)
qed

lemma stored_row_keeps:
  assumes "stored_row ev = Some row"
  shows "ev_id row = ev_id ev" "ev_user_id row = ev_user_id ev"
    "ev_start_at row = ev_start_at ev" "ev_end_at row = ev_end_at ev"
  using assms by (auto simp: stored_row_def bind_eq_Some_conv)

lemma parse_iso:
  assumes "iso_timestamp env s"
  shows "\<exists>t. parse_timestamp env s = Inr t \<and> bind_timestamptz env t = Inr (the (denotes env s))"
proof -
  have r: "replace_Z s = z_as_utc s"
    using assms by (simp add: iso_timestamp_def replace_Z_trailing)
  show ?thesis
    using assms unfolding iso_timestamp_def denotes_def parse_timestamp_def r
    by (auto split: option.splits sum.splits)
qed

lemma built_ids: "map ev_id (built env u k ds) = map (uuid4 env) [k..<k + length ds]"
proof (induction ds arbitrary: k)
  case Nil
  then show ?case by simp
next
  case (Cons d ds)
  have "[k..<k + length (d # ds)] = k # [Suc k..<Suc k + length ds]"
    by (subst upt_rec) simp
  then show ?case using Cons.IH [of "Suc k"] by (simp add: new_event_def)
qed

lemma built_user: "e \<in> set (built env u k ds) \<Longrightarrow> ev_user_id e = u"
  by (induction ds arbitrary: k) (auto simp: new_event_def)

lemma built_tuples:
  "\<forall>d\<in>set ds. accepted env d \<Longrightarrow>
   map stored_tuple (built env u k ds) = map (submitted_tuple env) ds"
  by (induction ds arbitrary: k)
     (auto simp: new_event_def stored_tuple_def submitted_tuple_def accepted_def
        iso_timestamp_def)

lemma owned_by_append: "owned_by u (xs @ ys) = owned_by u xs @ owned_by u ys"
  by (simp add: owned_by_def)

lemma owned_by_built: "owned_by u (built env u k ds) = built env u k ds"
  unfolding owned_by_def by (rule filter_True) (auto dest: built_user)

lemma owned_by_others: "owned_by u (filter (\<lambda>e. \<not> ev_user_id e = u) rows) = []"
  by (simp add: owned_by_def)

lemma create_ok:
  assumes acc: "accepted env d"
    and free: "uuid4 env (uuid_calls s) \<notin> set (map ev_id (pending s))"
  shows "create env s u d =
     (Inr (hd (built env u (uuid_calls s) [d])),
      s\<lparr>uuid_calls := Suc (uuid_calls s), pending := pending s @ built env u (uuid_calls s) [d]\<rparr>)"
proof -
  obtain a where a: "parse_timestamp env (ec_start_at d) = Inr a"
    "bind_timestamptz env a = Inr (the (denotes env (ec_start_at d)))"
    using parse_iso [of env "ec_start_at d"] acc by (auto simp: accepted_def)
  obtain b where b: "parse_timestamp env (ec_end_at d) = Inr b"
    "bind_timestamptz env b = Inr (the (denotes env (ec_end_at d)))"
    using parse_iso [of env "ec_end_at d"] acc by (auto simp: accepted_def)
  have row: "stored_row (new_event env (uuid4 env (uuid_calls s)) u d
                (the (denotes env (ec_start_at d))) (the (denotes env (ec_end_at d))))
      = Some (new_event env (uuid4 env (uuid_calls s)) u d
                (the (denotes env (ec_start_at d))) (the (denotes env (ec_end_at d))))"
    using acc by (simp add: accepted_def stored_row_fits)
  show ?thesis
    using a b row free by (simp add: create_def Let_def)
qed

lemma create_all_ok:
  assumes "\<forall>d\<in>set ds. accepted env d"
    and "distinct (map (uuid4 env) [uuid_calls s..<uuid_calls s + length ds])"
    and "set (map (uuid4 env) [uuid_calls s..<uuid_calls s + length ds])
           \<inter> set (map ev_id (pending s)) = {}"
  shows "create_all env s u ds =
     (Inr (), s\<lparr>uuid_calls := uuid_calls s + length ds,
                pending := pending s @ built env u (uuid_calls s) ds\<rparr>)"
  using assms
proof (induction ds arbitrary: s)
  case Nil
  then show ?case by simp
next
  case (Cons d ds)
  let ?k = "uuid_calls s"
  let ?s1 = "s\<lparr>uuid_calls := Suc ?k, pending := pending s @ built env u ?k [d]\<rparr>"
  have range: "[?k..<?k + length (d # ds)] = ?k # [Suc ?k..<Suc ?k + length ds]"
    by (subst upt_rec) simp
  have wf: "accepted env d" and wfs: "\<forall>d\<in>set ds. accepted env d"
    using Cons.prems(1) by simp_all
  have free: "uuid4 env ?k \<notin> set (map ev_id (pending s))"
    using Cons.prems(3) unfolding range by auto
  have step: "create env s u d = (Inr (hd (built env u ?k [d])), ?s1)"
    by (rule create_ok [OF wf free])
  have d1: "distinct (map (uuid4 env) [uuid_calls ?s1..<uuid_calls ?s1 + length ds])"
    using Cons.prems(2) unfolding range by simp
  have d2: "set (map (uuid4 env) [uuid_calls ?s1..<uuid_calls ?s1 + length ds])
              \<inter> set (map ev_id (pending ?s1)) = {}"
    using Cons.prems(2,3) unfolding range by (auto simp: new_event_def)
  have "create_all env ?s1 u ds =
     (Inr (), ?s1\<lparr>uuid_calls := uuid_calls ?s1 + length ds,
                pending := pending ?s1 @ built env u (uuid_calls ?s1) ds\<rparr>)"
    by (rule Cons.IH [OF wfs d1 d2])
  then show ?case using step by simp
qed

lemma create_committed: "committed (snd (create env s u d)) = committed s"
  by (simp add: create_def Let_def split: sum.split option.split)

lemma create_all_committed: "committed (snd (create_all env s u ds)) = committed s"
proof (induction ds arbitrary: s)
  case Nil
  then show ?case by simp
next
  case (Cons d ds)
  obtain r s1 where c: "create env s u d = (r, s1)" by (cases "create env s u d")
  have "committed s1 = committed s" using create_committed [of env s u d] c by simp
  then show ?case using c Cons.IH [of s1] by (cases r) simp_all
qed

lemma create_fails:
  "\<not> well_formed env d \<Longrightarrow> \<exists>m. fst (create env s u d) = Inl (ValueError m)"
  by (auto simp: create_def parse_timestamp_def well_formed_def split: option.splits)

lemma create_all_fails:
  "\<exists>d\<in>set ds. \<not> well_formed env d \<Longrightarrow> \<exists>e. fst (create_all env s u ds) = Inl e"
proof (induction ds arbitrary: s)
  case Nil
  then show ?case by simp
next
  case (Cons d ds)
  obtain r s1 where c: "create env s u d = (r, s1)" by (cases "create env s u d")
  show ?case
  proof (cases r)
    case (Inl e)
    then show ?thesis using c by simp
  next
    case (Inr ev)
    then have "well_formed env d" using create_fails [of env d s u] c by auto
    then have "\<exists>d\<in>set ds. \<not> well_formed env d" using Cons.prems by auto
    then show ?thesis using Cons.IH [of s1] c Inr by simp
  qed
qed

lemma create_others:
  assumes "b \<noteq> u"
  shows "owned_by b (pending (snd (create env s u d))) = owned_by b (pending s)"
proof -
  have row: "stored_row (new_event env i u d x y) = Some r \<Longrightarrow> ev_user_id r \<noteq> b" for i x y r
    using stored_row_keeps(2) [of "new_event env i u d x y" r] assms
    by (simp add: new_event_def)
  show ?thesis
    by (auto simp: create_def Let_def owned_by_def dest: row split: sum.split option.split)
qed

lemma create_all_others:
  "b \<noteq> u \<Longrightarrow> owned_by b (pending (snd (create_all env s u ds))) = owned_by b (pending s)"
proof (induction ds arbitrary: s)
  case Nil
  then show ?case by simp
next
  case (Cons d ds)
  obtain r s1 where c: "create env s u d = (r, s1)" by (cases "create env s u d")
  have "owned_by b (pending s1) = owned_by b (pending s)"
    using create_others [OF Cons.prems, of env s d] c by simp
  then show ?case using c Cons.IH [OF Cons.prems, of s1] by (cases r) simp_all
qed

lemma sync_events_ok:
  assumes wf: "\<forall>d\<in>set batch. accepted env d"
    and dist: "distinct (map (uuid4 env) [0..<length batch])"
    and fresh: "set (map (uuid4 env) [0..<length batch])
                  \<inter> set (map ev_id (filter (\<lambda>e. \<not> ev_user_id e = u) table)) = {}"
  shows "sync_events env (open_session table) u batch =
     (Inr (int (length batch)),
      \<lparr>committed = filter (\<lambda>e. \<not> ev_user_id e = u) table @ built env u 0 batch,
       pending = filter (\<lambda>e. \<not> ev_user_id e = u) table @ built env u 0 batch,
       uuid_calls = length batch\<rparr>)"
proof -
  let ?s1 = "\<lparr>committed = table, pending = filter (\<lambda>e. \<not> ev_user_id e = u) table,
      uuid_calls = 0\<rparr>"
  have del: "delete_user_events (open_session table) u =
      (int (length (filter (\<lambda>e. ev_user_id e = u) table)), ?s1)"
    by (simp add: delete_user_events_def execute_delete_def open_session_def)
  have d1: "distinct (map (uuid4 env) [uuid_calls ?s1..<uuid_calls ?s1 + length batch])"
    using dist by simp
  have d2: "set (map (uuid4 env) [uuid_calls ?s1..<uuid_calls ?s1 + length batch])
              \<inter> set (map ev_id (pending ?s1)) = {}"
    using fresh by simp
  have "create_all env ?s1 u batch =
     (Inr (), ?s1\<lparr>uuid_calls := uuid_calls ?s1 + length batch,
                  pending := pending ?s1 @ built env u (uuid_calls ?s1) batch\<rparr>)"
    by (rule create_all_ok [OF wf d1 d2])
  then show ?thesis using del by (simp add: sync_events_def commit_def)
qed






section \<open>Properties of the event store\<close>

text \<open>
  Claim C1, as amended. A sync of a batch the store accepts is a full replace. Let the
  request start on the committed table \<open>table\<close>, let every timestamp of the batch be an
  ISO-8601 string the library parses and the driver converts, let every string of the
  batch fit its column, and let the keys \<open>uuid4\<close> hands out for the batch be pairwise
  distinct and not in use by a row of another user. Then \<open>sync_events\<close> returns the
  length of the batch and commits; afterwards the rows of the user have, as a multiset,
  exactly the tuples (source_event_id, title, start_at, end_at) of the batch, the
  timestamps being the instants the submitted strings denote, also when the rows are
  listed by \<open>get_user_events\<close> in a later request; their primary keys are the keys
  generated by \<open>uuid4\<close>, in order, whatever the batch holds; primary keys stay unique in
  the table; the route reports the same count; and for the empty batch the user is left
  with no row.
\<close>

theorem sync_events_full_replace:
  assumes acc: "\<forall>d\<in>set batch. accepted env d"
    and dist: "distinct (map (uuid4 env) [0..<length batch])"
    and fresh: "set (map (uuid4 env) [0..<length batch])
                  \<inter> set (map ev_id (filter (\<lambda>e. \<not> ev_user_id e = usr_id current_user) table))
                = {}"
  shows "\<exists>s'. sync_events env (open_session table) (usr_id current_user) batch
                = (Inr (int (length batch)), s')
     \<and> pending s' = committed s'
     \<and> mset (map stored_tuple (owned_by (usr_id current_user) (committed s')))
         = mset (map (submitted_tuple env) batch)
     \<and> mset (map stored_tuple
           (fst (get_user_events (open_session (committed s')) (usr_id current_user))))
         = mset (map (submitted_tuple env) batch)
     \<and> map ev_id (owned_by (usr_id current_user) (committed s'))
         = map (uuid4 env) [0..<length batch]
     \<and> (distinct (map ev_id table) \<longrightarrow> distinct (map ev_id (committed s')))
     \<and> synced_count (fst (route_sync_events env (open_session table) current_user batch))
         = int (length batch)
     \<and> sync_success (fst (route_sync_events env (open_session table) current_user batch))
     \<and> (batch = [] \<longrightarrow> owned_by (usr_id current_user) (committed s') = [])"
proof -
  let ?u = "usr_id current_user"
  let ?others = "filter (\<lambda>e. \<not> ev_user_id e = ?u) table"
  let ?s' = "\<lparr>committed = ?others @ built env ?u 0 batch,
       pending = ?others @ built env ?u 0 batch,
       uuid_calls = length batch\<rparr>"
  have run: "sync_events env (open_session table) ?u batch = (Inr (int (length batch)), ?s')"
    by (rule sync_events_ok [OF acc dist fresh])
  have own: "owned_by ?u (committed ?s') = built env ?u 0 batch"
    by (simp add: owned_by_append owned_by_built owned_by_others)
  have tuples: "map stored_tuple (built env ?u 0 batch) = map (submitted_tuple env) batch"
    by (rule built_tuples [OF acc])
  have ids: "map ev_id (built env ?u 0 batch) = map (uuid4 env) [0..<length batch]"
    using built_ids [of env ?u 0 batch] by simp
  have listing: "fst (get_user_events (open_session (committed ?s')) ?u)
      = sort_key ev_start_at (owned_by ?u (committed ?s'))"
    by (simp add: get_user_events_def execute_select_def open_session_def owned_by_def)
  have listed: "mset (map stored_tuple (fst (get_user_events (open_session (committed ?s')) ?u)))
      = mset (map stored_tuple (built env ?u 0 batch))"
    unfolding listing own by simp
  have keys: "distinct (map ev_id table) \<longrightarrow> distinct (map ev_id (committed ?s'))"
  proof
    assume "distinct (map ev_id table)"
    then have "distinct (map ev_id ?others)" by (rule distinct_map_filter)
    then show "distinct (map ev_id (committed ?s'))"
      using dist fresh ids by auto
  qed
  have route: "fst (route_sync_events env (open_session table) current_user batch)
      = \<lparr>sync_success = True,
         sync_message = ''Successfully synced '' @ str_int (int (length batch)) @ '' events'',
         synced_count = int (length batch)\<rparr>"
    using run by (simp add: route_sync_events_def)
  have empty: "batch = [] \<longrightarrow> owned_by ?u (committed ?s') = []"
    unfolding own by simp
  show ?thesis
    using run own tuples ids listed keys route empty
    by (intro exI [of _ ?s']) simp
qed

theorem sync_events_full_replace_witness:
  "accepted sample_env team_sync_input \<and> accepted sample_env lunch_input
   \<and> denotes sample_env ''2026-01-11T10:00:00Z'' = Some 63903722400000000
   \<and> fst (sync_events sample_env (open_session [dentist, flight]) 1
            [team_sync_input, lunch_input]) = Inr 2
   \<and> map ev_id (owned_by 1 (committed (snd
        (sync_events sample_env (open_session [dentist, flight]) 1
           [team_sync_input, lunch_input]))))
        = [''uuid-0'', ''uuid-1'']
   \<and> mset (map stored_tuple (owned_by 1 (committed (snd
        (sync_events sample_env (open_session [dentist, flight]) 1
           [team_sync_input, lunch_input])))))
        = {#(''src-a'', ''Team Sync'', Some 63903722400000000, Some 63903726000000000),
            (''src-b'', ''Lunch'', Some 63903808800000000, Some 63903812400000000)#}
   \<and> fst (sync_events sample_env (open_session [dentist, flight]) 1 []) = Inr 0
   \<and> owned_by 1 (committed (snd
        (sync_events sample_env (open_session [dentist, flight]) 1 []))) = []"
proof -
  have den: "denotes sample_env ''2026-01-11T10:00:00Z'' = Some 63903722400000000"
    "denotes sample_env ''2026-01-11T11:00:00Z'' = Some 63903726000000000"
    "denotes sample_env ''2026-01-12T10:00:00+00:00'' = Some 63903808800000000"
    "denotes sample_env ''2026-01-12T11:00:00+00:00'' = Some 63903812400000000"
    by (simp_all add: denotes_def z_as_utc_def samples)
  have a1: "accepted sample_env team_sync_input"
    using den
    by (simp add: accepted_def iso_timestamp_def fits_columns_def fits_def fits_opt_def
        py_len_def team_sync_input_def input_of_def)
  have a2: "accepted sample_env lunch_input"
    using den
    by (simp add: accepted_def iso_timestamp_def fits_columns_def fits_def fits_opt_def
        py_len_def lunch_input_def input_of_def)
  have acc: "\<forall>d\<in>set [team_sync_input, lunch_input]. accepted sample_env d"
    using a1 a2 by simp
  have dist: "distinct (map (uuid4 sample_env) [0..<length [team_sync_input, lunch_input]])"
    by (simp add: sample_env_def upt_0_2 str_nat_digits)
  have fresh: "set (map (uuid4 sample_env) [0..<length [team_sync_input, lunch_input]])
      \<inter> set (map ev_id (filter (\<lambda>e. \<not> ev_user_id e = usr_id sample_user) [dentist, flight]))
      = {}"
    by (simp add: samples sample_user_def upt_0_2 str_nat_digits)
  have ids: "map (uuid4 sample_env) [0..<length [team_sync_input, lunch_input]]
      = [''uuid-0'', ''uuid-1'']"
    by (simp add: sample_env_def upt_0_2 str_nat_digits)
  have tup: "map (submitted_tuple sample_env) [team_sync_input, lunch_input]
      = [(''src-a'', ''Team Sync'', Some 63903722400000000, Some 63903726000000000),
         (''src-b'', ''Lunch'', Some 63903808800000000, Some 63903812400000000)]"
    using den by (simp add: submitted_tuple_def team_sync_input_def lunch_input_def input_of_def)
  have u: "usr_id sample_user = 1"
    by (simp add: sample_user_def)
  obtain s' where s': "sync_events sample_env (open_session [dentist, flight])
        (usr_id sample_user) [team_sync_input, lunch_input]
      = (Inr (int (length [team_sync_input, lunch_input])), s')"
    "mset (map stored_tuple (owned_by (usr_id sample_user) (committed s')))
      = mset (map (submitted_tuple sample_env) [team_sync_input, lunch_input])"
    "map ev_id (owned_by (usr_id sample_user) (committed s'))
      = map (uuid4 sample_env) [0..<length [team_sync_input, lunch_input]]"
    using sync_events_full_replace [OF acc dist fresh] by blast
  obtain s0 where s0: "sync_events sample_env (open_session [dentist, flight])
        (usr_id sample_user) [] = (Inr (int (length ([] :: EventCreate list))), s0)"
    "owned_by (usr_id sample_user) (committed s0) = []"
    using sync_events_full_replace [of "[]" sample_env sample_user "[dentist, flight]"]
    by auto
  show ?thesis
    using a1 a2 den(1) s' s0 ids tup u by simp
qed

text \<open>
  Where C1 as stated fails. The batch holds one event whose \<open>state\<close> has 51 characters,
  a value the schema \<open>EventCreate\<close> accepts. The column \<open>state\<close> is a \<open>String(50)\<close>: the
  INSERT is refused, \<open>sync_events\<close> raises and nothing is committed, so the stored
  events of the user are not those of the batch and no count is returned.
\<close>

theorem sync_refuses_long_state:
  "py_len (ec_state long_state_input) = 51
   \<and> sync_events sample_env (open_session [dentist, flight]) 1 [long_state_input]
     = (Inl (DBAPIError ''value too long''),
        \<lparr>committed = [dentist, flight], pending = [flight], uuid_calls = 1\<rparr>)"
proof -
  have st: "column 50 (replicate 51 (CHR ''x'')) = None"
    by (simp add: column_def varchar.simps py_len_replicate_ascii)
  have ok: "column 255 ''src-b'' = Some ''src-b''" "column 500 ''Lunch'' = Some ''Lunch''"
    by (simp_all add: column_def varchar.simps py_len_def)
  have row: "stored_row (new_event sample_env ''uuid-0'' 1 long_state_input
                63903808800000000 63903812400000000) = None"
    using st ok
    by (simp add: stored_row_def new_event_def long_state_input_def lunch_input_def input_of_def)
  show ?thesis
    using row
    by (simp add: sync_events_def delete_user_events_def execute_delete_def open_session_def
        create_def parse_timestamp_def Let_def samples str_nat_digits long_state_input_def
        py_len_replicate_ascii)
qed

text \<open>
  Claim C3. A sync that fails writes nothing. A batch holding an event whose
  \<open>start_at\<close> or \<open>end_at\<close> does not parse makes \<open>sync_events\<close> raise; and whenever
  \<open>sync_events\<close> raises, whatever the exception and however many rows the loop had
  already inserted, the committed table is the one the request started from: \<open>commit\<close>
  is reached only after the whole loop. A later request lists the same events of the
  user as before, and the route answers \<open>success = False\<close>, \<open>synced_count = 0\<close> with the
  text of the exception, still without a commit.
\<close>

theorem sync_events_atomic:
  "((\<exists>d\<in>set batch. \<not> well_formed env d) \<longrightarrow>
       (\<exists>e. fst (sync_events env s (usr_id current_user) batch) = Inl e))
   \<and> (\<forall>e. fst (sync_events env s (usr_id current_user) batch) = Inl e \<longrightarrow>
         committed (snd (sync_events env s (usr_id current_user) batch)) = committed s
         \<and> get_user_events
             (open_session (committed (snd (sync_events env s (usr_id current_user) batch)))) v
           = get_user_events (open_session (committed s)) v
         \<and> fst (route_sync_events env s current_user batch)
           = \<lparr>sync_success = False, sync_message = str_exn e, synced_count = 0\<rparr>
         \<and> committed (snd (route_sync_events env s current_user batch)) = committed s)"
proof -
  let ?u = "usr_id current_user"
  obtain n s1 where del: "delete_user_events s ?u = (n, s1)"
    by (cases "delete_user_events s ?u")
  have c1: "committed s1 = committed s"
    using del by (auto simp: delete_user_events_def execute_delete_def)
  obtain r s2 where ca: "create_all env s1 ?u batch = (r, s2)"
    by (cases "create_all env s1 ?u batch")
  have c2: "committed s2 = committed s"
    using create_all_committed [of env s1 ?u batch] ca c1 by simp
  have run: "sync_events env s ?u batch =
      (case r of Inl e \<Rightarrow> (Inl e, s2) | Inr x \<Rightarrow> (Inr (int (length batch)), commit s2))"
    using del ca by (simp add: sync_events_def split: sum.split)
  have a: "(\<exists>d\<in>set batch. \<not> well_formed env d) \<longrightarrow>
      (\<exists>e. fst (sync_events env s ?u batch) = Inl e)"
  proof
    assume "\<exists>d\<in>set batch. \<not> well_formed env d"
    then obtain e where "fst (create_all env s1 ?u batch) = Inl e"
      using create_all_fails [of batch env s1 ?u] by blast
    then show "\<exists>e. fst (sync_events env s ?u batch) = Inl e" using run ca by simp
  qed
  have b: "\<forall>e. fst (sync_events env s ?u batch) = Inl e \<longrightarrow>
         committed (snd (sync_events env s ?u batch)) = committed s
         \<and> get_user_events (open_session (committed (snd (sync_events env s ?u batch)))) v
           = get_user_events (open_session (committed s)) v
         \<and> fst (route_sync_events env s current_user batch)
           = \<lparr>sync_success = False, sync_message = str_exn e, synced_count = 0\<rparr>
         \<and> committed (snd (route_sync_events env s current_user batch)) = committed s"
    using run c2 by (cases r) (simp_all add: route_sync_events_def)
  show ?thesis using a b by blast
qed

theorem sync_events_atomic_witness:
  "\<not> well_formed sample_env malformed_input
   \<and> (\<exists>e. fst (sync_events sample_env (open_session [dentist, flight]) 1
               [team_sync_input, malformed_input]) = Inl e)
   \<and> committed (snd (sync_events sample_env (open_session [dentist, flight]) 1
               [team_sync_input, malformed_input])) = [dentist, flight]
   \<and> sync_success (fst (route_sync_events sample_env (open_session [dentist, flight])
               sample_user [team_sync_input, malformed_input])) = False"
proof -
  have bad: "\<not> well_formed sample_env malformed_input"
    by (simp add: well_formed_def samples)
  then have ex: "\<exists>d\<in>set [team_sync_input, malformed_input]. \<not> well_formed sample_env d"
    by simp
  have u: "usr_id sample_user = 1"
    by (simp add: sample_user_def)
  let ?run = "sync_events sample_env (open_session [dentist, flight]) (usr_id sample_user)
      [team_sync_input, malformed_input]"
  note atomic = sync_events_atomic [of "[team_sync_input, malformed_input]" sample_env
      "open_session [dentist, flight]" sample_user]
  obtain e where e: "fst ?run = Inl e"
    using atomic ex by blast
  have "committed (snd ?run) = committed (open_session [dentist, flight])"
    and "fst (route_sync_events sample_env (open_session [dentist, flight]) sample_user
          [team_sync_input, malformed_input])
        = \<lparr>sync_success = False, sync_message = str_exn e, synced_count = 0\<rparr>"
    using atomic e by blast+
  then show ?thesis
    using bad e u by (auto simp: open_session_def)
qed

text \<open>
  Claim C4, at its failing input. \<open>delete_past_events\<close> hands the naive object
  \<open>datetime.utcnow()\<close> to the driver, which reads a naive object as local time. In a
  process running five hours behind UTC the bound it deletes below lies five hours
  after the current time: at 2026-01-11T09:00:00 UTC the event \<open>briefing\<close>, which ends at
  10:00:00 UTC, is deleted with the past event \<open>dentist\<close>, and \<open>auto_sync\<close> commits that.
  In a process running in UTC the same call deletes \<open>dentist\<close> alone.
\<close>

theorem cleanup_deletes_unfinished_event:
  "utcnow new_york_env < ev_end_at briefing
   \<and> delete_past_events new_york_env (open_session [dentist, flight, briefing]) 1
     = (Inr 2, \<lparr>committed = [dentist, flight, briefing], pending = [flight], uuid_calls = 0\<rparr>)
   \<and> auto_sync new_york_env (open_session [dentist, flight, briefing]) 1
     = (Inr True, \<lparr>committed = [flight], pending = [flight], uuid_calls = 0\<rparr>)
   \<and> delete_past_events sample_env (open_session [dentist, flight, briefing]) 1
     = (Inr 1, \<lparr>committed = [dentist, flight, briefing], pending = [flight, briefing],
               uuid_calls = 0\<rparr>)"
  by (simp add: delete_past_events_def auto_sync_def execute_delete_def commit_def
      open_session_def new_york_env_def new_york_bind_def Let_def samples)




text \<open>
  Claim C7. Users are isolated. For two distinct users \<open>a\<close> and \<open>b\<close>, a sync of \<open>a\<close>
  with any batch, whether it succeeds or raises, and a cleanup of \<open>a\<close> leave the rows of
  \<open>b\<close> as they were, inside the transaction and in the committed table; so do the two
  delete statements of the repository.
\<close>

theorem users_isolated:
  assumes "b \<noteq> a"
  shows "owned_by b (pending (snd (sync_events env s a batch))) = owned_by b (pending s)
     \<and> owned_by b (committed (snd (sync_events env (open_session table) a batch)))
         = owned_by b table
     \<and> owned_by b (pending (snd (auto_sync env s a))) = owned_by b (pending s)
     \<and> owned_by b (committed (snd (auto_sync env (open_session table) a))) = owned_by b table
     \<and> owned_by b (pending (snd (delete_user_events s a))) = owned_by b (pending s)
     \<and> owned_by b (pending (snd (delete_past_events env s a))) = owned_by b (pending s)"
proof -
  have del: "owned_by b (pending (snd (delete_user_events s' a))) = owned_by b (pending s')"
    for s'
    using assms
    by (auto simp: delete_user_events_def execute_delete_def owned_by_def intro: filter_cong)
  have past: "owned_by b (pending (snd (delete_past_events env s' a))) = owned_by b (pending s')"
    for s'
    using assms
    by (auto simp: delete_past_events_def execute_delete_def owned_by_def Let_def
          split: sum.split intro: filter_cong)
  have past_committed: "committed (snd (delete_past_events env s' a)) = committed s'" for s'
    by (simp add: delete_past_events_def execute_delete_def Let_def split: sum.split)
  have sync_pending:
    "owned_by b (pending (snd (sync_events env s a batch))) = owned_by b (pending s)"
  proof -
    obtain n s1 where d: "delete_user_events s a = (n, s1)"
      by (cases "delete_user_events s a")
    obtain r s2 where c: "create_all env s1 a batch = (r, s2)"
      by (cases "create_all env s1 a batch")
    have "owned_by b (pending s1) = owned_by b (pending s)" using del [of s] d by simp
    moreover have "owned_by b (pending s2) = owned_by b (pending s1)"
      using create_all_others [OF assms, of env s1 batch] c by simp
    ultimately show ?thesis
      using d c by (cases r) (simp_all add: sync_events_def commit_def)
  qed
  have sync_committed:
    "owned_by b (committed (snd (sync_events env (open_session table) a batch)))
       = owned_by b table"
  proof -
    let ?s = "open_session table"
    obtain n s1 where d: "delete_user_events ?s a = (n, s1)"
      by (cases "delete_user_events ?s a")
    obtain r s2 where c: "create_all env s1 a batch = (r, s2)"
      by (cases "create_all env s1 a batch")
    have p1: "owned_by b (pending s1) = owned_by b table"
      using del [of ?s] d by (simp add: open_session_def)
    have p2: "owned_by b (pending s2) = owned_by b table"
      using create_all_others [OF assms, of env s1 batch] c p1 by simp
    have c1: "committed s1 = table"
      using d by (auto simp: delete_user_events_def execute_delete_def open_session_def)
    have c2: "committed s2 = table"
      using create_all_committed [of env s1 a batch] c c1 by simp
    show ?thesis
      using d c p2 c2 by (cases r) (simp_all add: sync_events_def commit_def)
  qed
  have auto_pending: "owned_by b (pending (snd (auto_sync env s a))) = owned_by b (pending s)"
  proof -
    obtain r s1 where d: "delete_past_events env s a = (r, s1)"
      by (cases "delete_past_events env s a")
    have "owned_by b (pending s1) = owned_by b (pending s)" using past [of s] d by simp
    then show ?thesis using d by (cases r) (simp_all add: auto_sync_def commit_def)
  qed
  have auto_committed:
    "owned_by b (committed (snd (auto_sync env (open_session table) a))) = owned_by b table"
  proof -
    let ?s = "open_session table"
    obtain r s1 where d: "delete_past_events env ?s a = (r, s1)"
      by (cases "delete_past_events env ?s a")
    have p: "owned_by b (pending s1) = owned_by b table"
      using past [of ?s] d by (simp add: open_session_def)
    have c: "committed s1 = table"
      using past_committed [of ?s] d by (simp add: open_session_def)
    show ?thesis using d p c by (cases r) (simp_all add: auto_sync_def commit_def)
  qed
  show ?thesis
    using sync_pending sync_committed auto_pending auto_committed del [of s] past [of s]
    by blast
qed

theorem users_isolated_witness:
  "(2::int) \<noteq> 1
   \<and> owned_by 2 (committed (snd (sync_events sample_env (open_session [dentist, flight]) 1
        [team_sync_input, lunch_input]))) = [flight]
   \<and> owned_by 2 (committed (snd (sync_events sample_env (open_session [dentist, flight]) 1
        [team_sync_input, malformed_input]))) = [flight]
   \<and> owned_by 2 (committed (snd (auto_sync sample_env (open_session [dentist, flight]) 1)))
        = [flight]"
proof -
  have ne: "(2::int) \<noteq> 1" by simp
  have own: "owned_by 2 [dentist, flight] = [flight]"
    by (simp add: owned_by_def samples)
  show ?thesis
    using users_isolated [OF ne, of sample_env _ "[team_sync_input, lunch_input]"
        "[dentist, flight]"]
      users_isolated [OF ne, of sample_env _ "[team_sync_input, malformed_input]"
        "[dentist, flight]"]
      own
    by simp
qed



section \<open>Properties of the context engine\<close>

text \<open>
  Claim C2, as amended. \<open>process_context\<close> follows the policy table: \<open>location_change\<close>
  with a non-empty list of calendar events gives \<open>notify\<close> with a notification of
  priority \<open>normal\<close> whose body quotes the title of the first event; \<open>time_based\<close> with a
  non-empty list gives \<open>notify\<close> with priority \<open>high\<close>, again quoting the first title;
  \<open>activity_change\<close> with a \<open>motion.activity_type\<close> that is present and not the empty
  string gives \<open>monitor\<close> without a notification; \<open>health_alert\<close> with \<open>health\<close> present
  gives \<open>notify\<close> with the fixed wellness notification of priority \<open>high\<close>. A recognised
  trigger whose test fails (no calendar events or an empty list; no motion, no activity
  type or an empty one; no health) gives \<open>no_action\<close> with neither reasoning nor
  notification. Any other trigger gives \<open>no_action\<close> without a notification, and the
  reasoning names the trigger. The function is total: no input raises. (The response is
  the first component of the result; the second is the logger.)
\<close>

theorem process_context_policy:
  "(trigger = ''location_change'' \<and> snap_calendar_events snapshot = Some (first # others) \<longrightarrow>
      fst (process_context user trigger snapshot logger) =
        response ''notify''
          (Some (''User arrived at location, upcoming event: '' @ cal_title first))
          (Some (payload ''normal'' lit_upcoming_activity
                   (lit_your_activity @ cal_title first @ lit_about_to_start) lit_view_details)))
   \<and> (trigger = ''time_based'' \<and> snap_calendar_events snapshot = Some (first # others) \<longrightarrow>
      fst (process_context user trigger snapshot logger) =
        response ''notify''
          (Some (''Time-based reminder for: '' @ cal_title first))
          (Some (payload ''high'' lit_activity_reminder
                   (lit_your_activity @ cal_title first @ lit_starts_in_15_minutes)
                   lit_ready_to_go)))
   \<and> (trigger = ''activity_change'' \<and> snap_motion snapshot = Some m
        \<and> mo_activity_type m = Some a \<and> a \<noteq> [] \<longrightarrow>
      fst (process_context user trigger snapshot logger) =
        response ''monitor'' (Some (''Activity changed to: '' @ a)) None)
   \<and> (trigger = ''health_alert'' \<and> snap_health snapshot = Some h \<longrightarrow>
      fst (process_context user trigger snapshot logger) =
        response ''notify'' (Some ''Health data requires attention'')
          (Some (payload ''high'' lit_health_reminder lit_take_a_rest lit_learn_more)))
   \<and> ((trigger = ''location_change'' \<or> trigger = ''time_based'')
        \<and> (snap_calendar_events snapshot = None \<or> snap_calendar_events snapshot = Some []) \<longrightarrow>
      fst (process_context user trigger snapshot logger) = response ''no_action'' None None)
   \<and> (trigger = ''activity_change''
        \<and> (snap_motion snapshot = None
            \<or> (\<exists>m'. snap_motion snapshot = Some m'
                  \<and> (mo_activity_type m' = None \<or> mo_activity_type m' = Some []))) \<longrightarrow>
      fst (process_context user trigger snapshot logger) = response ''no_action'' None None)
   \<and> (trigger = ''health_alert'' \<and> snap_health snapshot = None \<longrightarrow>
      fst (process_context user trigger snapshot logger) = response ''no_action'' None None)
   \<and> (trigger \<noteq> ''location_change'' \<and> trigger \<noteq> ''time_based''
        \<and> trigger \<noteq> ''activity_change'' \<and> trigger \<noteq> ''health_alert'' \<longrightarrow>
      fst (process_context user trigger snapshot logger) =
        response ''no_action'' (Some (''Unknown trigger type: '' @ trigger)) None)"
  by (auto simp: process_context_def Let_def)

theorem process_context_policy_witness:
  "fst (process_context sample_user ''location_change''
       (empty_snapshot\<lparr>snap_calendar_events := Some [team_sync, lunch]\<rparr>) [])
     = response ''notify'' (Some ''User arrived at location, upcoming event: Team Sync'')
         (Some (payload ''normal'' lit_upcoming_activity
                  (lit_your_activity @ ''Team Sync'' @ lit_about_to_start) lit_view_details))
   \<and> fst (process_context sample_user ''time_based''
       (empty_snapshot\<lparr>snap_calendar_events := Some [lunch, team_sync]\<rparr>) [])
     = response ''notify'' (Some ''Time-based reminder for: Lunch'')
         (Some (payload ''high'' lit_activity_reminder
                  (lit_your_activity @ ''Lunch'' @ lit_starts_in_15_minutes) lit_ready_to_go))
   \<and> fst (process_context sample_user ''activity_change''
       (empty_snapshot\<lparr>snap_motion := Some (motion_of (Some ''running''))\<rparr>) [])
     = response ''monitor'' (Some ''Activity changed to: running'') None
   \<and> fst (process_context sample_user ''health_alert''
       (empty_snapshot\<lparr>snap_health := Some sample_health\<rparr>) [])
     = response ''notify'' (Some ''Health data requires attention'')
         (Some (payload ''high'' lit_health_reminder lit_take_a_rest lit_learn_more))
   \<and> fst (process_context sample_user ''location_change'' empty_snapshot [])
     = response ''no_action'' None None
   \<and> fst (process_context sample_user ''time_based''
       (empty_snapshot\<lparr>snap_calendar_events := Some []\<rparr>) [])
     = response ''no_action'' None None
   \<and> fst (process_context sample_user ''activity_change''
       (empty_snapshot\<lparr>snap_motion := Some (motion_of None)\<rparr>) [])
     = response ''no_action'' None None
   \<and> fst (process_context sample_user ''health_alert'' empty_snapshot [])
     = response ''no_action'' None None
   \<and> fst (process_context sample_user ''bogus_trigger'' empty_snapshot [])
     = response ''no_action'' (Some ''Unknown trigger type: bogus_trigger'') None"
  using
    process_context_policy [where trigger = "''location_change''"
      and snapshot = "empty_snapshot\<lparr>snap_calendar_events := Some [team_sync, lunch]\<rparr>"
      and first = team_sync and others = "[lunch]" and user = sample_user and logger = "[]"]
    process_context_policy [where trigger = "''time_based''"
      and snapshot = "empty_snapshot\<lparr>snap_calendar_events := Some [lunch, team_sync]\<rparr>"
      and first = lunch and others = "[team_sync]" and user = sample_user and logger = "[]"]
    process_context_policy [where trigger = "''activity_change''"
      and snapshot = "empty_snapshot\<lparr>snap_motion := Some (motion_of (Some ''running''))\<rparr>"
      and user = sample_user and logger = "[]"
      and m = "motion_of (Some ''running'')" and a = "''running''"]
    process_context_policy [where trigger = "''health_alert''"
      and snapshot = "empty_snapshot\<lparr>snap_health := Some sample_health\<rparr>"
      and user = sample_user and logger = "[]" and h = sample_health]
    process_context_policy [where trigger = "''location_change''"
      and snapshot = empty_snapshot and user = sample_user and logger = "[]"]
    process_context_policy [where trigger = "''time_based''"
      and snapshot = "empty_snapshot\<lparr>snap_calendar_events := Some []\<rparr>"
      and user = sample_user and logger = "[]"]
    process_context_policy [where trigger = "''activity_change''"
      and snapshot = "empty_snapshot\<lparr>snap_motion := Some (motion_of None)\<rparr>"
      and user = sample_user and logger = "[]"]
    process_context_policy [where trigger = "''health_alert''"
      and snapshot = empty_snapshot and user = sample_user and logger = "[]"]
    process_context_policy [where trigger = "''bogus_trigger''"
      and snapshot = empty_snapshot and user = sample_user and logger = "[]"]
  by (simp add: empty_snapshot_def team_sync_def lunch_def motion_of_def)

text \<open>
  Where C2 as stated fails. A snapshot whose motion carries the activity type \<open>""\<close> has
  the field present, yet the truthiness test of the \<open>activity_change\<close> branch rejects
  the empty string and the decision stays \<open>no_action\<close>.
\<close>

theorem activity_change_empty_type:
  "mo_activity_type (motion_of (Some [])) = Some []
   \<and> fst (process_context sample_user ''activity_change''
        (empty_snapshot\<lparr>snap_motion := Some (motion_of (Some []))\<rparr>) [])
      = response ''no_action'' None None"
  by (simp add: process_context_def Let_def empty_snapshot_def motion_of_def)



text \<open>
  Claim C8, as amended. The response of \<open>process_context\<close> is a function of the trigger
  and the snapshot alone: two calls with the same trigger and snapshot return the same
  decision, reasoning and notification whichever users they are made for and whatever
  was logged before, and so does the route when the call returns. The call has one
  effect: it appends to the logger of the module the record
  \<open>Processing context for user {user.id}, trigger: {trigger}\<close>, which names the user.
\<close>

theorem process_context_ignores_user:
  "fst (process_context user1 trigger snapshot logger1)
      = fst (process_context user2 trigger snapshot logger2)
   \<and> snd (process_context user trigger snapshot logger)
      = logger @ [(INFO, ''Processing context for user '' @ str_int (usr_id user)
                           @ '', trigger: '' @ trigger)]
   \<and> fst (context_engine None request user1 logger1)
      = fst (context_engine None request user2 logger2)"
  by (simp add: process_context_def context_engine_def Let_def)

text \<open>
  Where C8 as stated fails. The call is not free of effects: it leaves a record in the
  logger, and the record differs with the user the call is made for.
\<close>

theorem process_context_writes_log:
  "snd (process_context sample_user ''time_based'' empty_snapshot [])
     = [(INFO, ''Processing context for user 1, trigger: time_based'')]
   \<and> snd (process_context other_user ''time_based'' empty_snapshot [])
     = [(INFO, ''Processing context for user 2, trigger: time_based'')]"
  by (simp add: process_context_def Let_def sample_user_def other_user_def str_int_digits)

text \<open>
  Claim C9. Every outcome of \<open>process_context\<close> is well formed: it carries a
  notification exactly when its decision is \<open>notify\<close>, and its decision is one of
  \<open>no_action\<close>, \<open>monitor\<close> and \<open>notify\<close>.
\<close>

theorem process_context_well_formed:
  "(notification (fst (process_context user trigger snapshot logger)) \<noteq> None)
      = (decision (fst (process_context user trigger snapshot logger)) = ''notify'')
   \<and> decision (fst (process_context user trigger snapshot logger))
        \<in> {''no_action'', ''monitor'', ''notify''}"
  by (simp add: process_context_def response_def Let_def split: option.split list.split)

end
